theory Spec2Isabelle
  imports Complex_Main
begin

section \<open>The counter interaction script (src/counter-interact.js)\<close>

text \<open>
  The script reads its configuration from the environment, builds a wallet, and then runs
  \<open>main\<close>: a balance check, a first read of the counter, a loop of \<open>INCREMENT_COUNT\<close>
  attempts to call \<open>increment\<close>, and a final report. Everything the script learns from
  outside (environment variables, the answers of the RPC endpoint, the draws of
  \<open>Math.random\<close>) is a field of the record \<open>world\<close>; everything it does to the outside
  (console lines, RPC calls, sleeps) is an \<open>event\<close> appended to the field \<open>out\<close> of its state,
  in program order. An \<open>await\<close> of a call that rejects is a \<open>throw\<close>: the answer \<open>Inl e\<close>.
\<close>

subsection \<open>Values\<close>

text \<open>A JavaScript \<open>BigInt\<close> is an unbounded integer.\<close>

type_synonym bigint = int

text \<open>A thrown value: an \<open>Error\<close> object with its message.\<close>

datatype exn = Error (message: string)

text \<open>
  \<open>!v\<close> for an environment variable: \<open>process.env.X\<close> is \<open>undefined\<close> (\<open>None\<close>) or a string,
  and the empty string is falsy.
\<close>

definition js_not :: "string option \<Rightarrow> bool" where
  "js_not v = (case v of None \<Rightarrow> True | Some s \<Rightarrow> s = [])"

text \<open>
  \<open>a || b\<close> on values that are a \<open>BigInt\<close> or missing (\<open>undefined\<close>, \<open>null\<close>): a missing value
  and \<open>0n\<close> are falsy.
\<close>

definition truthy :: "bigint option \<Rightarrow> bool" where
  "truthy v = (case v of None \<Rightarrow> False | Some p \<Rightarrow> p \<noteq> 0)"

definition js_or :: "bigint option \<Rightarrow> bigint option \<Rightarrow> bigint option" where
  "js_or a b = (if truthy a then a else b)"

text \<open>\<open>a * b\<close> with \<open>a\<close> a \<open>BigInt\<close>: a \<open>TypeError\<close> when \<open>b\<close> is not a \<open>BigInt\<close>.\<close>

definition bigint_mul :: "bigint \<Rightarrow> bigint option \<Rightarrow> exn + bigint" where
  "bigint_mul a b =
     (case b of
        None \<Rightarrow> Inl (Error ''Cannot mix BigInt and other types, use explicit conversions'')
      | Some p \<Rightarrow> Inr (a * p))"

text \<open>\<open>a / b\<close> on \<open>BigInt\<close>s: a \<open>RangeError\<close> when \<open>b\<close> is \<open>0n\<close>, else the quotient truncated towards zero.\<close>

definition bigint_div :: "bigint \<Rightarrow> bigint \<Rightarrow> exn + bigint" where
  "bigint_div a b =
     (if b = 0 then Inl (Error ''Division by zero'')
      else Inr (sgn a * sgn b * (\<bar>a\<bar> div \<bar>b\<bar>)))"

text \<open>\<open>BigInt(n)\<close> for a counter \<open>n\<close>.\<close>

definition BigInt :: "nat \<Rightarrow> bigint" where
  "BigInt n = int n"

subsection \<open>Double-precision numbers\<close>

text \<open>
  A JavaScript \<open>Number\<close> is an IEEE 754 binary64 value. The script's delay is computed in
  that arithmetic from the draw of \<open>Math.random()\<close>, so the non-negative finite doubles are
  modelled: \<open>Double m e\<close> is the number \<open>m * 2 ^ e\<close>, and it is a double when the mantissa
  \<open>m\<close> has at most 53 bits and the exponent \<open>e\<close> is in the range of the format.
\<close>

datatype double = Double (mantissa: nat) (exponent: int)



text \<open>The number of bits of a mantissa.\<close>

fun bitlen :: "nat \<Rightarrow> nat" where
  "bitlen n = (if n = 0 then 0 else Suc (bitlen (n div 2)))"

declare bitlen.simps [simp del]

text \<open>
  Rounding of the exact value \<open>M * 2 ^ E\<close> to the nearest double, ties to the even mantissa:
  the \<open>s\<close> low bits that do not fit (53 bits of mantissa, no exponent below \<open>-1074\<close>) are
  dropped, and the mantissa is incremented when they are more than half a unit of the last
  kept bit, or exactly half with an odd mantissa. Overflow to infinity is not modelled: the
  values rounded here are below \<open>2 ^ 53\<close>.
\<close>

definition round53 :: "nat \<Rightarrow> int \<Rightarrow> double" where
  "round53 M E =
     (let s = max (int (bitlen M) - 53) (- 1074 - E)
      in if s \<le> 0 then Double M E
         else (let q = M div 2 ^ nat s;
                   r = M mod 2 ^ nat s;
                   h = 2 ^ (nat s - 1)
               in Double (if h < r \<or> (r = h \<and> odd q) then q + 1 else q) (E + s)))"

text \<open>\<open>x * y\<close> on doubles: the exact product, rounded.\<close>

definition dmul :: "double \<Rightarrow> double \<Rightarrow> double" where
  "dmul x y = round53 (mantissa x * mantissa y) (exponent x + exponent y)"

text \<open>\<open>Math.floor(x)\<close>, which is exact.\<close>

definition dfloor :: "double \<Rightarrow> int" where
  "dfloor d =
     (if 0 \<le> exponent d then int (mantissa d) * 2 ^ nat (exponent d)
      else int (mantissa d) div 2 ^ nat (- exponent d))"

text \<open>The \<open>Number\<close> with an integer value \<open>k\<close>, exact for \<open>0 \<le> k \<le> 2 ^ 53\<close>.\<close>

definition Number :: "int \<Rightarrow> double" where
  "Number k = Double (nat k) 0"

subsection \<open>Configuration constants (lines 19-21)\<close>

text \<open>
  The source fixes the three constants; the model takes them as a record so that the
  properties are stated for every attempt count and delay range, with the source's values as
  \<open>defaults\<close>.
\<close>

record config =
  INCREMENT_COUNT :: nat
  MIN_DELAY :: int
  MAX_DELAY :: int

definition defaults :: config where
  "defaults = \<lparr>INCREMENT_COUNT = 50, MIN_DELAY = 1000, MAX_DELAY = 3000\<rparr>"

subsection \<open>What the endpoint answers\<close>

record tx =
  tx_hash :: string
  tx_gasPrice :: "bigint option"

record receipt =
  rc_gasUsed :: bigint
  rc_gasPrice :: "bigint option"

text \<open>
  The answers of one loop iteration, in the order the iteration asks for them, and the two
  draws of \<open>Math.random\<close> it may make (line 115 for the logged delay, line 42 for the sleep).
\<close>

record rpc =
  getCount_before :: "exn + bigint"
  increment :: "exn + tx"
  wait :: "exn + receipt"
  getCount_after :: "exn + bigint"
  random_log :: double
  random_sleep :: double

record world =
  PRIVATE_KEY :: "string option"
  SEPOLIA_RPC_URL :: "string option"
  COUNTER_ADDRESS :: "string option"
  newWallet :: "exn + string"
  getBalance_initial :: "exn + bigint"
  getCount_initial :: "exn + bigint"
  attempts :: "nat \<Rightarrow> rpc"
  getCount_final :: "exn + bigint"
  getBalance_final :: "exn + bigint"

definition RPC_URL :: "world \<Rightarrow> string" where
  "RPC_URL w = (if js_not (SEPOLIA_RPC_URL w) then ''https://rpc.sepolia.org''
                else (case SEPOLIA_RPC_URL w of Some u \<Rightarrow> u | None \<Rightarrow> []))"

subsection \<open>What the script does\<close>

text \<open>
  A value printed in place: a literal, \<open>x.toString()\<close> of a \<open>BigInt\<close>, or
  \<open>formatEth(x) + ' ETH'\<close>. The decimal formatting itself is not modelled.
\<close>

datatype shown = Lit string | Big bigint | EthUnit bigint

text \<open>One console line: \<open>Text\<close> for a fixed text, a constructor of its own for a line with values.\<close>

datatype line =
    Text string
  | ContractAddress "string option"
  | WalletAddress string
  | TargetIncrements nat
  | DelayRange int int
  | WalletBalance bigint
  | InitialCounterValue bigint
  | Incrementing nat nat bigint
  | TransactionSent string
  | SuccessNewCount bigint
  | GasUsedCost bigint bigint
  | Waiting int
  | ErrorMessage string
  | InitialCount bigint
  | FinalCount bigint
  | ActualIncrements bigint
  | Success nat
  | Failed nat
  | SuccessRate nat nat
  | TotalGasUsed bigint
  | TotalGasCost bigint
  | AvgGasPerTx shown
  | AvgCostPerTx shown
  | InitialBalance bigint
  | FinalBalance bigint
  | TotalSpent bigint
  | FatalError exn

datatype call = GetBalance | GetCount | Increment | Wait

datatype event = Log line | LogError line | Call call | Sleep int

text \<open>The statistics of lines 75-78 and the events so far.\<close>

record run =
  out :: "event list"
  successCount :: nat
  failCount :: nat
  totalGasUsed :: bigint
  totalGasCost :: bigint

definition init :: run where
  "init = \<lparr>out = [], successCount = 0, failCount = 0, totalGasUsed = 0, totalGasCost = 0\<rparr>"

definition emit :: "event list \<Rightarrow> run \<Rightarrow> run" where
  "emit es s = s\<lparr>out := out s @ es\<rparr>"

text \<open>How a block of statements ends: normally, by a throw, or by \<open>process.exit\<close>.\<close>

datatype completion = Returned | Thrown exn | Exited nat

subsection \<open>The random delay (lines 41-44 and 115)\<close>

text \<open>
  \<open>Math.floor(Math.random() * (MAX_DELAY - MIN_DELAY + 1)) + MIN_DELAY\<close>, for the draw \<open>x\<close> of
  \<open>Math.random()\<close>: the product is a product of doubles and is rounded before the floor is
  taken. The two constants are integers; the difference, the two sums and the floor are
  exact as long as \<open>0 \<le> MIN_DELAY\<close> and \<open>MAX_DELAY < 2 ^ 53\<close>, so they are written on integers.
\<close>

definition delayOf :: "config \<Rightarrow> double \<Rightarrow> int" where
  "delayOf cfg x = dfloor (dmul x (Number (MAX_DELAY cfg - MIN_DELAY cfg + 1))) + MIN_DELAY cfg"

definition randomDelay :: "config \<Rightarrow> double \<Rightarrow> event list" where
  "randomDelay cfg x = [Sleep (delayOf cfg x)]"

subsection \<open>One attempt (lines 85-129)\<close>

text \<open>Lines 97-119: the statements after the receipt has arrived.\<close>

definition confirmed :: "config \<Rightarrow> nat \<Rightarrow> rpc \<Rightarrow> tx \<Rightarrow> receipt \<Rightarrow> run \<Rightarrow> completion \<times> run" where
  "confirmed cfg i r t rc s3 =
     (let gasUsed = rc_gasUsed rc;
          gasPrice = js_or (rc_gasPrice rc) (tx_gasPrice t)
      in case bigint_mul gasUsed gasPrice of
           Inl e \<Rightarrow> (Thrown e, s3)
         | Inr gasCost \<Rightarrow>
             (let s4 = s3\<lparr>totalGasUsed := totalGasUsed s3 + gasUsed,
                         totalGasCost := totalGasCost s3 + gasCost\<rparr>;
                  s5 = emit [Call GetCount] s4
              in (case getCount_after r of
                    Inl e \<Rightarrow> (Thrown e, s5)
                  | Inr newCount \<Rightarrow>
                      (let s6 = emit [Log (SuccessNewCount newCount),
                                      Log (GasUsedCost gasUsed gasCost)] s5;
                           s7 = s6\<lparr>successCount := successCount s6 + 1\<rparr>
                       in (Returned,
                           if i < INCREMENT_COUNT cfg
                           then emit ([Log (Waiting (delayOf cfg (random_log r)))]
                                      @ randomDelay cfg (random_sleep r)
                                      @ [Log (Text [])]) s7
                           else s7)))))"

text \<open>Lines 86-119: the \<open>try\<close> block.\<close>

definition body :: "config \<Rightarrow> nat \<Rightarrow> rpc \<Rightarrow> run \<Rightarrow> completion \<times> run" where
  "body cfg i r s0 =
     (let s1 = emit [Call GetCount] s0
      in case getCount_before r of
           Inl e \<Rightarrow> (Thrown e, s1)
         | Inr currentCount \<Rightarrow>
             (let s2 = emit [Log (Incrementing i (INCREMENT_COUNT cfg) currentCount),
                             Call Increment] s1
              in (case increment r of
                    Inl e \<Rightarrow> (Thrown e, s2)
                  | Inr t \<Rightarrow>
                      (let s3 = emit [Log (TransactionSent (tx_hash t)), Call Wait] s2
                       in (case wait r of
                             Inl e \<Rightarrow> (Thrown e, s3)
                           | Inr rc \<Rightarrow> confirmed cfg i r t rc s3)))))"

text \<open>Lines 121-129: the \<open>catch\<close> block.\<close>

definition handler :: "exn \<Rightarrow> run \<Rightarrow> run" where
  "handler error s =
     (let s1 = emit [LogError (ErrorMessage (message error))] s;
          s2 = s1\<lparr>failCount := failCount s1 + 1\<rparr>
      in emit [Log (Text ''Waiting 5s before continuing...''), Sleep 5000, Log (Text [])] s2)"

text \<open>The \<open>try\<close> statement: a throw of the block runs the handler; any other completion stays.\<close>

definition attempt :: "config \<Rightarrow> nat \<Rightarrow> rpc \<Rightarrow> run \<Rightarrow> completion \<times> run" where
  "attempt cfg i r s =
     (case body cfg i r s of
        (Thrown error, s') \<Rightarrow> (Returned, handler error s')
      | (c, s') \<Rightarrow> (c, s'))"

subsection \<open>The loop (lines 84-130)\<close>

text \<open>
  \<open>for (let i = 1; i <= INCREMENT_COUNT; i++)\<close>: an iteration that does not complete normally
  ends the loop with its completion.
\<close>

function loop :: "config \<Rightarrow> nat \<Rightarrow> (nat \<Rightarrow> rpc) \<Rightarrow> run \<Rightarrow> completion \<times> run" where
  "loop cfg i rpcs s =
     (if i \<le> INCREMENT_COUNT cfg
      then (case attempt cfg i (rpcs i) s of
              (Returned, s') \<Rightarrow> loop cfg (i + 1) rpcs s'
            | (c, s') \<Rightarrow> (c, s'))
      else (Returned, s))"
  by pat_completeness auto
termination
  by (relation "measure (\<lambda>(cfg, i, rpcs, s). INCREMENT_COUNT cfg + 1 - i)") auto

declare loop.simps [simp del]

subsection \<open>The report (lines 132-159)\<close>

definition avgGasPerTx :: "run \<Rightarrow> exn + shown" where
  "avgGasPerTx s =
     (if successCount s > 0
      then (case bigint_div (totalGasUsed s) (BigInt (successCount s)) of
              Inl e \<Rightarrow> Inl e
            | Inr q \<Rightarrow> Inr (Big q))
      else Inr (Lit ''0''))"

definition avgCostPerTx :: "run \<Rightarrow> exn + shown" where
  "avgCostPerTx s =
     (if successCount s > 0
      then (case bigint_div (totalGasCost s) (BigInt (successCount s)) of
              Inl e \<Rightarrow> Inl e
            | Inr q \<Rightarrow> Inr (EthUnit q))
      else Inr (Lit ''0 ETH''))"

definition report :: "config \<Rightarrow> world \<Rightarrow> bigint \<Rightarrow> bigint \<Rightarrow> run \<Rightarrow> completion \<times> run" where
  "report cfg w balance initialCount s =
     (let s1 = emit [Log (Text []), Log (Text ''Final Statistics''),
                     Log (Text ''===================''), Call GetCount] s
      in case getCount_final w of
           Inl e \<Rightarrow> (Thrown e, s1)
         | Inr finalCount \<Rightarrow>
             (let s2 = emit [Log (InitialCount initialCount), Log (FinalCount finalCount),
                            Log (ActualIncrements (finalCount - initialCount)), Log (Text []),
                            Log (Success (successCount s)), Log (Failed (failCount s)),
                            Log (SuccessRate (successCount s) (INCREMENT_COUNT cfg)),
                            Log (Text []),
                            Log (TotalGasUsed (totalGasUsed s)),
                            Log (TotalGasCost (totalGasCost s))] s1
             in (case avgGasPerTx s of
                  Inl e \<Rightarrow> (Thrown e, s2)
                | Inr avgGas \<Rightarrow>
                    (let s3 = emit [Log (AvgGasPerTx avgGas)] s2
                    in (case avgCostPerTx s of
                         Inl e \<Rightarrow> (Thrown e, s3)
                       | Inr avgCost \<Rightarrow>
                           (let s4 = emit [Log (AvgCostPerTx avgCost), Log (Text []),
                                          Call GetBalance] s3
                           in (case getBalance_final w of
                                Inl e \<Rightarrow> (Thrown e, s4)
                              | Inr finalBalance \<Rightarrow>
                                  (Returned,
                                   emit [Log (InitialBalance balance),
                                         Log (FinalBalance finalBalance),
                                         Log (TotalSpent (balance - finalBalance)),
                                         Log (Text []),
                                         Log (Text ''Test completed!'')] s4))))))))"

subsection \<open>main (lines 51-160) and the script around it\<close>

definition main :: "config \<Rightarrow> world \<Rightarrow> string \<Rightarrow> completion \<times> run" where
  "main cfg w walletAddress =
     (let s0 = emit [Log (Text ''Counter Interaction Test''),
                     Log (Text ''============================''),
                     Log (ContractAddress (COUNTER_ADDRESS w)),
                     Log (WalletAddress walletAddress),
                     Log (TargetIncrements (INCREMENT_COUNT cfg)),
                     Log (DelayRange (MIN_DELAY cfg) (MAX_DELAY cfg)),
                     Log (Text []), Call GetBalance] init
      in case getBalance_initial w of
           Inl e \<Rightarrow> (Thrown e, s0)
         | Inr balance \<Rightarrow>
             (let s1 = emit [Log (WalletBalance balance)] s0
             in if balance = 0
                then (Exited 1,
                      emit [LogError (Text ''Error: Insufficient balance. Please add Sepolia ETH to your wallet.'')] s1)
                else (let s2 = emit [Call GetCount] s1
                     in (case getCount_initial w of
                          Inl e \<Rightarrow> (Thrown e, s2)
                        | Inr initialCount \<Rightarrow>
                            (let s3 = emit [Log (InitialCounterValue initialCount), Log (Text []),
                                           Log (Text ''Starting increment operations...''),
                                           Log (Text [])] s2
                            in (case loop cfg 1 (attempts w) s3 of
                                 (Returned, s4) \<Rightarrow> report cfg w balance initialCount s4
                               | (c, s4) \<Rightarrow> (c, s4)))))))"

text \<open>
  The module: the two configuration checks (lines 24-33), the wallet (lines 36-38; an
  exception there is uncaught, and Node ends the process with code 1), then
  \<open>main().catch(...)\<close> (lines 162-165). The result is the exit code and the final state; a
  process that runs to its end exits with code 0.
\<close>

definition script :: "config \<Rightarrow> world \<Rightarrow> nat \<times> run" where
  "script cfg w =
     (if js_not (PRIVATE_KEY w)
      then (1, emit [LogError (Text ''Error: PRIVATE_KEY not found in .env'')] init)
      else if js_not (COUNTER_ADDRESS w)
      then (1, emit [LogError (Text ''Error: COUNTER_ADDRESS not found in .env''),
                     LogError (Text ''Please deploy the contract first and add the address to .env'')] init)
      else case newWallet w of
             Inl e \<Rightarrow> (1, init)
           | Inr walletAddress \<Rightarrow>
               (case main cfg w walletAddress of
                  (Returned, s) \<Rightarrow> (0, s)
                | (Thrown error, s) \<Rightarrow> (1, emit [LogError (FatalError error)] s)
                | (Exited code, s) \<Rightarrow> (code, s)))"

text \<open>What is read off the events.\<close>

definition sleeps :: "event list \<Rightarrow> int list" where
  "sleeps es = concat (map (\<lambda>e. case e of Sleep d \<Rightarrow> [d] | _ \<Rightarrow> []) es)"

definition calls :: "event list \<Rightarrow> call list" where
  "calls es = concat (map (\<lambda>e. case e of Call c \<Rightarrow> [c] | _ \<Rightarrow> []) es)"

text \<open>
  The state when the loop begins (line 83), for the balance and the first count that \<open>main\<close>
  has read: the events of lines 52-82 and the statistics at zero.
\<close>

definition before_loop :: "config \<Rightarrow> world \<Rightarrow> string \<Rightarrow> bigint \<Rightarrow> bigint \<Rightarrow> run" where
  "before_loop cfg w walletAddress balance initialCount =
     emit [Log (Text ''Counter Interaction Test''),
           Log (Text ''============================''),
           Log (ContractAddress (COUNTER_ADDRESS w)),
           Log (WalletAddress walletAddress),
           Log (TargetIncrements (INCREMENT_COUNT cfg)),
           Log (DelayRange (MIN_DELAY cfg) (MAX_DELAY cfg)),
           Log (Text []), Call GetBalance,
           Log (WalletBalance balance), Call GetCount,
           Log (InitialCounterValue initialCount), Log (Text []),
           Log (Text ''Starting increment operations...''),
           Log (Text [])] init"

subsection \<open>The gas price as the specification words it\<close>

text \<open>
  "Read the effective gas price from the receipt, falling back to the pre-submission gas price
  if the receipt omits it": the fallback is taken for a missing price only. This definition
  follows the specification, not the source; it is compared with \<open>js_or\<close> below.
\<close>

definition spec_gasPrice :: "bigint option \<Rightarrow> bigint option \<Rightarrow> bigint option" where
  "spec_gasPrice receiptPrice txPrice = (case receiptPrice of None \<Rightarrow> txPrice | Some p \<Rightarrow> Some p)"

subsection \<open>The delay as the specification words it\<close>


subsection \<open>Concrete runs\<close>

text \<open>
  An attempt that succeeds, one whose first read of the counter fails, one whose transaction
  is confirmed and whose read of the new count (line 106) fails, and one whose receipt
  reports the gas price \<open>0n\<close>.
\<close>

definition ok_rpc :: rpc where
  "ok_rpc = \<lparr>getCount_before = Inr 7,
             increment = Inr \<lparr>tx_hash = ''0xa1'', tx_gasPrice = Some 1\<rparr>,
             wait = Inr \<lparr>rc_gasUsed = 21000, rc_gasPrice = Some 1\<rparr>,
             getCount_after = Inr 8,
             random_log = Double 3 (- 2), random_sleep = Double 1 (- 2)\<rparr>"

definition failing_rpc :: rpc where
  "failing_rpc = ok_rpc\<lparr>getCount_before := Inl (Error ''could not detect network'')\<rparr>"

definition late_failing_rpc :: rpc where
  "late_failing_rpc = ok_rpc\<lparr>getCount_after := Inl (Error ''could not detect network'')\<rparr>"

definition zero_price_rpc :: rpc where
  "zero_price_rpc = ok_rpc\<lparr>increment := Inr \<lparr>tx_hash = ''0xa1'', tx_gasPrice = Some 5\<rparr>,
                           wait := Inr \<lparr>rc_gasUsed = 21000, rc_gasPrice = Some 0\<rparr>\<rparr>"


text \<open>
  The scenario of the specification: three attempts, the second fails, the first and the
  third succeed. Two variants fail after the loop: at the final read of the counter, and at
  the final read of the balance.
\<close>

definition scenario_cfg :: config where
  "scenario_cfg = defaults\<lparr>INCREMENT_COUNT := 3\<rparr>"

definition scenario_world :: world where
  "scenario_world =
     \<lparr>PRIVATE_KEY = Some ''0xkey'', SEPOLIA_RPC_URL = None, COUNTER_ADDRESS = Some ''0xc0'',
      newWallet = Inr ''0xw0'',
      getBalance_initial = Inr 1000000, getCount_initial = Inr 7,
      attempts = (\<lambda>i. if i = 2 then failing_rpc else ok_rpc),
      getCount_final = Inr 9, getBalance_final = Inr 958000\<rparr>"

definition count_error_world :: world where
  "count_error_world = scenario_world\<lparr>getCount_final := Inl (Error ''timeout'')\<rparr>"

definition balance_error_world :: world where
  "balance_error_world = scenario_world\<lparr>getBalance_final := Inl (Error ''timeout'')\<rparr>"

section \<open>Properties\<close>

subsection \<open>Basic facts\<close>

lemma out_emit: "out (emit es s) = out s @ es"
  and successCount_emit: "successCount (emit es s) = successCount s"
  and failCount_emit: "failCount (emit es s) = failCount s"
  and totalGasUsed_emit: "totalGasUsed (emit es s) = totalGasUsed s"
  and totalGasCost_emit: "totalGasCost (emit es s) = totalGasCost s"
  by (simp_all add: emit_def)

lemmas emit_simps = out_emit successCount_emit failCount_emit totalGasUsed_emit totalGasCost_emit

lemma emit_emit: "emit es (emit ds s) = emit (ds @ es) s"
  by (simp add: emit_def)

lemma sleeps_append: "sleeps (xs @ ys) = sleeps xs @ sleeps ys"
  by (simp add: sleeps_def)

lemma sleeps_Cons:
  "sleeps (Sleep d # es) = d # sleeps es"
  "sleeps (Log l # es) = sleeps es"
  "sleeps (LogError l # es) = sleeps es"
  "sleeps (Call c # es) = sleeps es"
  "sleeps [] = []"
  by (simp_all add: sleeps_def)

lemmas sleeps_simps = sleeps_append sleeps_Cons

lemma calls_append: "calls (xs @ ys) = calls xs @ calls ys"
  by (simp add: calls_def)

lemma calls_Cons:
  "calls (Sleep d # es) = calls es"
  "calls (Log l # es) = calls es"
  "calls (LogError l # es) = calls es"
  "calls (Call c # es) = c # calls es"
  "calls [] = []"
  by (simp_all add: calls_def)

lemmas calls_simps = calls_append calls_Cons

lemmas attempt_defs = attempt_def body_def confirmed_def handler_def randomDelay_def Let_def

lemmas fixture_defs = ok_rpc_def failing_rpc_def late_failing_rpc_def zero_price_rpc_def
  scenario_cfg_def scenario_world_def defaults_def

lemmas run_defs = script_def main_def report_def attempt_def body_def confirmed_def handler_def
  randomDelay_def delayOf_def dmul_def round53_def dfloor_def Number_def bitlen.simps
  avgGasPerTx_def avgCostPerTx_def bigint_div_def bigint_mul_def
  BigInt_def js_or_def truthy_def js_not_def emit_def init_def Let_def

subsection \<open>One attempt\<close>

text \<open>
  The \<open>try\<close> block never ends the process, the \<open>try\<close> statement always completes normally,
  and it counts the attempt as a success exactly when the block ran to its end.
\<close>

lemma body_Returned:
  "getCount_before r = Inr c \<Longrightarrow> increment r = Inr t \<Longrightarrow> wait r = Inr rc \<Longrightarrow>
   js_or (rc_gasPrice rc) (tx_gasPrice t) = Some p \<Longrightarrow> getCount_after r = Inr c' \<Longrightarrow>
   fst (body cfg i r s) = Returned"
  by (simp add: body_def confirmed_def bigint_mul_def Let_def)

lemma body_not_Exited: "fst (body cfg i r s) \<noteq> Exited k"
  by (simp add: body_def confirmed_def Let_def split: sum.split)

lemma attempt_Returned: "fst (attempt cfg i r s) = Returned"
  by (simp add: attempt_def body_def confirmed_def Let_def split: sum.split)

lemma attempt_success:
  assumes "fst (body cfg i r s) = Returned"
  shows "successCount (snd (attempt cfg i r s)) = successCount s + 1"
    and "failCount (snd (attempt cfg i r s)) = failCount s"
    and "sleeps (out (snd (attempt cfg i r s))) =
           sleeps (out s) @ (if i < INCREMENT_COUNT cfg then [delayOf cfg (random_sleep r)] else [])"
  using assms
  by (auto simp add: attempt_defs emit_simps sleeps_simps split: sum.splits)

lemma attempt_failure:
  assumes "fst (body cfg i r s) \<noteq> Returned"
  shows "successCount (snd (attempt cfg i r s)) = successCount s"
    and "failCount (snd (attempt cfg i r s)) = failCount s + 1"
    and "sleeps (out (snd (attempt cfg i r s))) = sleeps (out s) @ [5000]"
  using assms
  by (auto simp add: attempt_defs emit_simps sleeps_simps split: sum.splits)

lemma attempt_counts:
  "successCount (snd (attempt cfg i r s)) + failCount (snd (attempt cfg i r s)) =
     successCount s + failCount s + 1"
  using attempt_success(1,2) [of cfg i r s] attempt_failure(1,2) [of cfg i r s]
  by (cases "fst (body cfg i r s) = Returned") simp_all

lemma attempt_early_error:
  assumes "getCount_before r = Inl e \<or> increment r = Inl e \<or> wait r = Inl e"
  shows "fst (body cfg i r s) \<noteq> Returned"
    and "totalGasUsed (snd (attempt cfg i r s)) = totalGasUsed s"
    and "totalGasCost (snd (attempt cfg i r s)) = totalGasCost s"
  using assms
  by (auto simp add: attempt_defs emit_simps split: sum.splits)

lemma attempt_confirmed_totals:
  assumes "getCount_before r = Inr c" "increment r = Inr t" "wait r = Inr rc"
    and "js_or (rc_gasPrice rc) (tx_gasPrice t) = Some p"
  shows "totalGasUsed (snd (attempt cfg i r s)) = totalGasUsed s + rc_gasUsed rc"
    and "totalGasCost (snd (attempt cfg i r s)) = totalGasCost s + rc_gasUsed rc * p"
  using assms
  by (auto simp add: attempt_defs bigint_mul_def emit_simps split: sum.splits)

text \<open>Where the endpoint reports no negative gas figure, an attempt never lowers the totals.\<close>

lemma attempt_totals_nondecreasing:
  assumes "\<And>rc. wait r = Inr rc \<Longrightarrow> 0 \<le> rc_gasUsed rc"
    and "\<And>rc p. wait r = Inr rc \<Longrightarrow> rc_gasPrice rc = Some p \<Longrightarrow> 0 \<le> p"
    and "\<And>t p. increment r = Inr t \<Longrightarrow> tx_gasPrice t = Some p \<Longrightarrow> 0 \<le> p"
  shows "totalGasUsed s \<le> totalGasUsed (snd (attempt cfg i r s))"
    and "totalGasCost s \<le> totalGasCost (snd (attempt cfg i r s))"
  using assms
  by (auto simp add: attempt_defs bigint_mul_def js_or_def truthy_def emit_simps
      split: sum.splits option.splits if_splits)

subsection \<open>The loop\<close>

text \<open>
  The loop always completes normally, and each of its iterations adds one to the sum of the
  two counters.
\<close>

lemma loop_counts:
  "fst (loop cfg i rpcs s) = Returned \<and>
   successCount (snd (loop cfg i rpcs s)) + failCount (snd (loop cfg i rpcs s)) =
     successCount s + failCount s + (INCREMENT_COUNT cfg + 1 - i)"
proof (induction cfg i rpcs s rule: loop.induct)
  case (1 cfg i rpcs s)
  show ?case
  proof (cases "i \<le> INCREMENT_COUNT cfg")
    case True
    define s1 where "s1 = snd (attempt cfg i (rpcs i) s)"
    have a: "attempt cfg i (rpcs i) s = (Returned, s1)"
      using attempt_Returned [of cfg i "rpcs i" s] by (simp add: s1_def prod_eq_iff)
    have c: "successCount s1 + failCount s1 = successCount s + failCount s + 1"
      unfolding s1_def by (rule attempt_counts)
    have step: "loop cfg i rpcs s = loop cfg (i + 1) rpcs s1"
      using True a by (subst loop.simps) simp
    from "1.IH" [OF True a [symmetric] refl] c True show ?thesis
      by (simp add: step)
  next
    case False
    then have "loop cfg i rpcs s = (Returned, s)"
      by (subst loop.simps) simp
    with False show ?thesis by simp
  qed
qed

lemma loop_eq: "loop cfg i rpcs s = (Returned, snd (loop cfg i rpcs s))"
  using loop_counts [of cfg i rpcs s] by (simp add: prod_eq_iff)




subsection \<open>The random delay\<close>

text \<open>
  The mantissa of a number that is not zero lies between the two powers of two that its
  number of bits gives.
\<close>

lemma bitlen_upper: "n < 2 ^ bitlen n"
proof (induction n rule: bitlen.induct)
  case (1 n)
  show ?case
  proof (cases "n = 0")
    case True
    then show ?thesis by (simp add: bitlen.simps)
  next
    case False
    from "1.IH" [OF False] have "n div 2 < 2 ^ bitlen (n div 2)" .
    then have "n < 2 * 2 ^ bitlen (n div 2)" by linarith
    with False show ?thesis by (subst bitlen.simps) simp
  qed
qed








subsection \<open>The report, main and the script\<close>

lemma avgGasPerTx_eq:
  "avgGasPerTx s =
     Inr (if successCount s > 0
          then Big (sgn (totalGasUsed s) * (\<bar>totalGasUsed s\<bar> div int (successCount s)))
          else Lit ''0'')"
  by (simp add: avgGasPerTx_def bigint_div_def BigInt_def)

lemma avgCostPerTx_eq:
  "avgCostPerTx s =
     Inr (if successCount s > 0
          then EthUnit (sgn (totalGasCost s) * (\<bar>totalGasCost s\<bar> div int (successCount s)))
          else Lit ''0 ETH'')"
  by (simp add: avgCostPerTx_def bigint_div_def BigInt_def)

lemma report_fst:
  "fst (report cfg w b c0 s) = Returned \<longleftrightarrow>
     (\<exists>cf bf. getCount_final w = Inr cf \<and> getBalance_final w = Inr bf)"
  by (simp add: report_def Let_def avgGasPerTx_eq avgCostPerTx_eq split: sum.split)

lemma report_not_Exited: "fst (report cfg w b c0 s) \<noteq> Exited k"
  by (simp add: report_def Let_def avgGasPerTx_eq avgCostPerTx_eq split: sum.split)

lemma report_counts:
  "successCount (snd (report cfg w b c0 s)) = successCount s"
  "failCount (snd (report cfg w b c0 s)) = failCount s"
  "totalGasUsed (snd (report cfg w b c0 s)) = totalGasUsed s"
  "totalGasCost (snd (report cfg w b c0 s)) = totalGasCost s"
  by (simp_all add: report_def Let_def avgGasPerTx_eq avgCostPerTx_eq emit_simps split: sum.split)

lemma report_final_count_error:
  assumes "getCount_final w = Inl e"
  shows "report cfg w b c0 s =
           (Thrown e, emit [Log (Text []), Log (Text ''Final Statistics''),
                            Log (Text ''===================''), Call GetCount] s)"
  using assms by (simp add: report_def)

lemma report_final_balance_error:
  assumes "getCount_final w = Inr cf" "getBalance_final w = Inl e"
    and "avgGasPerTx s = Inr avgGas" "avgCostPerTx s = Inr avgCost"
  shows "report cfg w b c0 s =
           (Thrown e, emit [Log (Text []), Log (Text ''Final Statistics''),
                            Log (Text ''===================''), Call GetCount,
                            Log (InitialCount c0), Log (FinalCount cf),
                            Log (ActualIncrements (cf - c0)), Log (Text []),
                            Log (Success (successCount s)), Log (Failed (failCount s)),
                            Log (SuccessRate (successCount s) (INCREMENT_COUNT cfg)),
                            Log (Text []),
                            Log (TotalGasUsed (totalGasUsed s)),
                            Log (TotalGasCost (totalGasCost s)),
                            Log (AvgGasPerTx avgGas), Log (AvgCostPerTx avgCost), Log (Text []),
                            Call GetBalance] s)"
  using assms by (simp add: report_def emit_emit)

lemma before_loop_counts:
  "successCount (before_loop cfg w a b c0) = 0" "failCount (before_loop cfg w a b c0) = 0"
  "totalGasUsed (before_loop cfg w a b c0) = 0" "totalGasCost (before_loop cfg w a b c0) = 0"
  by (simp_all add: before_loop_def emit_def init_def)

lemma main_eq:
  assumes "getBalance_initial w = Inr b" "b \<noteq> 0" "getCount_initial w = Inr c0"
  shows "main cfg w a = report cfg w b c0 (snd (loop cfg 1 (attempts w) (before_loop cfg w a b c0)))"
proof -
  have "main cfg w a =
          (case loop cfg 1 (attempts w) (before_loop cfg w a b c0) of
             (Returned, s4) \<Rightarrow> report cfg w b c0 s4 | (c, s4) \<Rightarrow> (c, s4))"
    using assms by (simp add: main_def Let_def emit_emit before_loop_def)
  also have "\<dots> = report cfg w b c0 (snd (loop cfg 1 (attempts w) (before_loop cfg w a b c0)))"
    by (subst loop_eq) simp
  finally show ?thesis .
qed

lemma main_fst:
  "fst (main cfg w a) = Returned \<longleftrightarrow>
     (\<exists>b c0 cf bf. getBalance_initial w = Inr b \<and> b \<noteq> 0 \<and> getCount_initial w = Inr c0 \<and>
        getCount_final w = Inr cf \<and> getBalance_final w = Inr bf)"
  apply (simp add: main_def Let_def split: sum.split)
  apply (intro allI impI conjI)
  apply (subst loop_eq)
  apply (simp add: report_fst)
  done

lemma main_zero_balance:
  assumes "getBalance_initial w = Inr 0"
  shows "fst (main cfg w a) = Exited 1" "calls (out (snd (main cfg w a))) = [GetBalance]"
    "successCount (snd (main cfg w a)) = 0" "failCount (snd (main cfg w a)) = 0"
    "totalGasUsed (snd (main cfg w a)) = 0" "totalGasCost (snd (main cfg w a)) = 0"
  using assms by (simp_all add: main_def Let_def emit_def init_def calls_simps)

lemma main_Exited: "fst (main cfg w a) = Exited k \<Longrightarrow> k = 1"
proof (cases "getBalance_initial w")
  case (Inl e)
  assume "fst (main cfg w a) = Exited k"
  with Inl show ?thesis by (simp add: main_def Let_def)
next
  case (Inr b)
  assume ex: "fst (main cfg w a) = Exited k"
  show ?thesis
  proof (cases "b = 0")
    case True
    with Inr ex main_zero_balance(1) [of w cfg a] show ?thesis by simp
  next
    case False
    show ?thesis
    proof (cases "getCount_initial w")
      case (Inl e)
      with Inr False ex show ?thesis by (simp add: main_def Let_def)
    next
      case c: (Inr c0)
      from main_eq [OF Inr False c] ex report_not_Exited show ?thesis by simp
    qed
  qed
qed

lemma script_fst:
  "fst (script cfg w) =
     (if js_not (PRIVATE_KEY w) \<or> js_not (COUNTER_ADDRESS w) then 1
      else case newWallet w of
             Inl e \<Rightarrow> 1
           | Inr a \<Rightarrow> (case fst (main cfg w a) of Returned \<Rightarrow> 0 | Thrown e \<Rightarrow> 1 | Exited k \<Rightarrow> k))"
  by (simp add: script_def split: sum.split prod.split completion.split)

lemma script_exit_code: "fst (script cfg w) = 0 \<or> fst (script cfg w) = 1"
  using main_Exited [of cfg w]
  by (auto simp add: script_fst split: sum.split completion.split)

lemma script_exit_0:
  "fst (script cfg w) = 0 \<longleftrightarrow>
     \<not> js_not (PRIVATE_KEY w) \<and> \<not> js_not (COUNTER_ADDRESS w) \<and>
     (\<exists>a b c0 cf bf. newWallet w = Inr a \<and> getBalance_initial w = Inr b \<and> b \<noteq> 0 \<and>
        getCount_initial w = Inr c0 \<and> getCount_final w = Inr cf \<and> getBalance_final w = Inr bf)"
proof (cases "js_not (PRIVATE_KEY w) \<or> js_not (COUNTER_ADDRESS w)")
  case True
  then show ?thesis by (auto simp add: script_fst)
next
  case False
  show ?thesis
  proof (cases "newWallet w")
    case (Inl e)
    with False show ?thesis by (simp add: script_fst)
  next
    case (Inr a)
    have "fst (script cfg w) = 0 \<longleftrightarrow> fst (main cfg w a) = Returned"
      using False Inr main_Exited [of cfg w a]
      by (cases "fst (main cfg w a)") (auto simp add: script_fst)
    with False Inr show ?thesis by (simp add: main_fst)
  qed
qed

lemma script_not_started:
  assumes "js_not (PRIVATE_KEY w) \<or> js_not (COUNTER_ADDRESS w)"
  shows "calls (out (snd (script cfg w))) = []"
    "successCount (snd (script cfg w)) = 0" "failCount (snd (script cfg w)) = 0"
    "totalGasUsed (snd (script cfg w)) = 0" "totalGasCost (snd (script cfg w)) = 0"
  using assms by (auto simp add: script_def emit_def init_def calls_simps)

lemma script_zero_balance:
  assumes "\<not> js_not (PRIVATE_KEY w)" "\<not> js_not (COUNTER_ADDRESS w)" "newWallet w = Inr a"
    and "getBalance_initial w = Inr 0"
  shows "snd (script cfg w) = snd (main cfg w a)"
  using assms main_zero_balance(1) [of w cfg a]
  by (cases "main cfg w a") (simp add: script_def)

lemma script_Thrown:
  assumes "\<not> js_not (PRIVATE_KEY w)" "\<not> js_not (COUNTER_ADDRESS w)" "newWallet w = Inr a"
    and "main cfg w a = (Thrown e, s)"
  shows "script cfg w = (1, emit [LogError (FatalError e)] s)"
  using assms by (simp add: script_def)

subsection \<open>The scenario of the specification\<close>

text \<open>
  Three attempts, the second fails: the run ends with exit code 0, two successes, one
  failure and 42000 gas; it sleeps the random delay after the first attempt and the fixed
  5000 ms after the second, and does not sleep after the third.
\<close>

lemma scenario_run:
  "fst (script scenario_cfg scenario_world) = 0 \<and>
   successCount (snd (script scenario_cfg scenario_world)) = 2 \<and>
   failCount (snd (script scenario_cfg scenario_world)) = 1 \<and>
   totalGasUsed (snd (script scenario_cfg scenario_world)) = 42000 \<and>
   sleeps (out (snd (script scenario_cfg scenario_world))) = [1500, 5000]"
  by (simp add: fixture_defs run_defs loop.simps sleeps_def)

section \<open>The claims\<close>

text \<open>
  Claim C1. When the loop has ended, the success count plus the failure count equals the
  attempt count \<open>INCREMENT_COUNT\<close> (both counts start at zero, lines 75-76; the statement
  below holds from any start), and every iteration adds one to exactly one of the two
  counts, whether the attempt succeeds or fails.
\<close>

theorem C1_counts_sum_to_attempts:
  "successCount (snd (loop cfg 1 rpcs s)) + failCount (snd (loop cfg 1 rpcs s)) =
     successCount s + failCount s + INCREMENT_COUNT cfg
   \<and> ((successCount (snd (attempt cfg i r s)) = successCount s + 1 \<and>
        failCount (snd (attempt cfg i r s)) = failCount s)
      \<or> (successCount (snd (attempt cfg i r s)) = successCount s \<and>
         failCount (snd (attempt cfg i r s)) = failCount s + 1))"
  using loop_counts [of cfg 1 rpcs s]
    attempt_success(1,2) [of cfg i r s] attempt_failure(1,2) [of cfg i r s]
  by (cases "fst (body cfg i r s) = Returned") simp_all

text \<open>
  Claim C1 on the scenario of three attempts, counted from zero: the two counts add up to 3.
\<close>

theorem C1_counts_sum_to_attempts_witness:
  "successCount (snd (loop scenario_cfg 1 (attempts scenario_world) init)) +
   failCount (snd (loop scenario_cfg 1 (attempts scenario_world) init)) = 3"
  using C1_counts_sum_to_attempts [where cfg = scenario_cfg and rpcs = "attempts scenario_world"
      and s = init]
  by (simp add: scenario_cfg_def init_def)

text \<open>
  Claim C2 says that the gas totals grow only on an attempt recorded as a success and that
  an attempt recorded as a failure adds nothing to them. The source adds the gas of a
  confirmed transaction to the totals (lines 102-103) before it reads the new count
  (line 106) and before it counts the success (line 111). On the attempt below the
  transaction is confirmed with 21000 gas at price 1 and the read of line 106 fails: the
  attempt is recorded as a failure, and both totals have grown by 21000.
\<close>

theorem C2_gas_added_on_recorded_failure:
  "failCount (snd (attempt defaults 1 late_failing_rpc init)) = 1 \<and>
   successCount (snd (attempt defaults 1 late_failing_rpc init)) = 0 \<and>
   totalGasUsed (snd (attempt defaults 1 late_failing_rpc init)) = 21000 \<and>
   totalGasCost (snd (attempt defaults 1 late_failing_rpc init)) = 21000"
  by (simp add: fixture_defs run_defs)

text \<open>
  Claim C3 says that every attempt whose transaction is confirmed (a receipt is obtained)
  increments the success count. In the run below each of three attempts obtains its receipt,
  every call of \<open>increment\<close> and of \<open>wait\<close> is made, and the read of the new count (line 106)
  fails each time: the success count stays 0 and the failure count is 3.
\<close>

theorem C3_confirmed_counted_as_failure:
  "wait late_failing_rpc = Inr \<lparr>rc_gasUsed = 21000, rc_gasPrice = Some 1\<rparr> \<and>
   successCount (snd (loop scenario_cfg 1 (\<lambda>i. late_failing_rpc) init)) = 0 \<and>
   failCount (snd (loop scenario_cfg 1 (\<lambda>i. late_failing_rpc) init)) = 3 \<and>
   calls (out (snd (loop scenario_cfg 1 (\<lambda>i. late_failing_rpc) init))) =
     [GetCount, Increment, Wait, GetCount, GetCount, Increment, Wait, GetCount,
      GetCount, Increment, Wait, GetCount]"
  by (simp add: fixture_defs run_defs loop.simps calls_def)

text \<open>
  Claim C4. No exception leaves an attempt: the \<open>try\<close> statement always completes normally.
  An error of the first count read, of the submission or of the confirmation wait is counted
  as one failure and no success, and leaves the gas totals as they were. The loop itself
  always completes normally and has then counted \<open>INCREMENT_COUNT\<close> attempts: none is skipped
  and nothing ends the loop early.
\<close>

theorem C4_attempt_errors_absorbed:
  "fst (attempt cfg i r s) = Returned \<and>
   (getCount_before r = Inl e \<or> increment r = Inl e \<or> wait r = Inl e \<longrightarrow>
      failCount (snd (attempt cfg i r s)) = failCount s + 1 \<and>
      successCount (snd (attempt cfg i r s)) = successCount s \<and>
      totalGasUsed (snd (attempt cfg i r s)) = totalGasUsed s \<and>
      totalGasCost (snd (attempt cfg i r s)) = totalGasCost s) \<and>
   fst (loop cfg 1 rpcs s) = Returned \<and>
   successCount (snd (loop cfg 1 rpcs s)) + failCount (snd (loop cfg 1 rpcs s)) =
     successCount s + failCount s + INCREMENT_COUNT cfg"
  using attempt_Returned [of cfg i r s] loop_counts [of cfg 1 rpcs s]
    attempt_early_error [of r e cfg i s] attempt_failure(1,2) [of cfg i r s]
  by auto

text \<open>
  Claim C4 on the second attempt of the scenario, whose first read of the counter fails.
\<close>

theorem C4_attempt_errors_absorbed_witness:
  "getCount_before failing_rpc = Inl (Error ''could not detect network'') \<and>
   fst (attempt scenario_cfg 2 failing_rpc init) = Returned \<and>
   failCount (snd (attempt scenario_cfg 2 failing_rpc init)) = 1 \<and>
   successCount (snd (attempt scenario_cfg 2 failing_rpc init)) = 0 \<and>
   totalGasUsed (snd (attempt scenario_cfg 2 failing_rpc init)) = 0 \<and>
   fst (loop scenario_cfg 1 (attempts scenario_world) init) = Returned"
  using C4_attempt_errors_absorbed [where cfg = scenario_cfg and i = 2 and r = failing_rpc
      and s = init and e = "Error ''could not detect network''"
      and rpcs = "attempts scenario_world"]
  by (simp add: failing_rpc_def ok_rpc_def init_def)

text \<open>
  Claim C5. The two averages of the report are defined for every state of the statistics:
  the division is reached only with a positive success count, so it never raises. With a
  success count of zero they are the texts \<open>0\<close> and \<open>0 ETH\<close>. Accordingly the report
  completes normally exactly when its two reads of the endpoint succeed.
\<close>

theorem C5_averages_defined:
  "(\<exists>v. avgGasPerTx s = Inr v) \<and> (\<exists>v. avgCostPerTx s = Inr v) \<and>
   (successCount s = 0 \<longrightarrow>
      avgGasPerTx s = Inr (Lit ''0'') \<and> avgCostPerTx s = Inr (Lit ''0 ETH'')) \<and>
   (fst (report cfg w balance initialCount s) = Returned \<longleftrightarrow>
      (\<exists>finalCount finalBalance.
         getCount_final w = Inr finalCount \<and> getBalance_final w = Inr finalBalance))"
  by (simp add: avgGasPerTx_eq avgCostPerTx_eq report_fst)

text \<open>Claim C5 on the statistics before any attempt, where the success count is zero.\<close>

theorem C5_averages_defined_witness:
  "successCount init = 0 \<and> avgGasPerTx init = Inr (Lit ''0'') \<and>
   avgCostPerTx init = Inr (Lit ''0 ETH'')"
  using C5_averages_defined [of init]
  by (simp add: init_def)

text \<open>
  Claim C6 as stated: the pre-submission gas price is used if and only if the receipt omits
  the gas price. It fails for a receipt that reports the price \<open>0n\<close>: the receipt does not
  omit the price, the price used differs from the one the specification's wording gives, and
  the cost added is 21000 times the pre-submission price 5, not 21000 times 0.
\<close>

theorem C6_fallback_on_zero_price:
  "rc_gasPrice \<lparr>rc_gasUsed = 21000, rc_gasPrice = Some 0\<rparr> \<noteq> None \<and>
   js_or (Some 0) (Some 5) \<noteq> spec_gasPrice (Some 0) (Some 5) \<and>
   totalGasCost (snd (attempt defaults 1 zero_price_rpc init)) = 21000 * 5 \<and>
   totalGasCost (snd (attempt defaults 1 zero_price_rpc init)) \<noteq> 21000 * 0"
  by (simp add: fixture_defs run_defs spec_gasPrice_def)

text \<open>
  Claim C6 as amended. The gas price used is the receipt's gas price when the receipt
  reports one other than zero, and the pre-submission gas price if and only if the receipt
  omits the price or reports zero. When the receipt has arrived and that price \<open>p\<close> is
  available, the attempt adds the gas used to the first total and gas used times \<open>p\<close> to the
  second.
\<close>

theorem C6_gas_price_used:
  "js_or receiptPrice txPrice =
     (if receiptPrice = None \<or> receiptPrice = Some 0 then txPrice else receiptPrice) \<and>
   (getCount_before r = Inr c \<and> increment r = Inr t \<and> wait r = Inr rc \<and>
    js_or (rc_gasPrice rc) (tx_gasPrice t) = Some p \<longrightarrow>
      totalGasUsed (snd (attempt cfg i r s)) = totalGasUsed s + rc_gasUsed rc \<and>
      totalGasCost (snd (attempt cfg i r s)) = totalGasCost s + rc_gasUsed rc * p)"
  using attempt_confirmed_totals [of r c t rc p cfg i s]
  by (auto simp add: js_or_def truthy_def split: option.splits)

text \<open>Claim C6 as amended, on the attempt whose receipt reports the price zero.\<close>

theorem C6_gas_price_used_witness:
  "js_or (rc_gasPrice \<lparr>rc_gasUsed = 21000, rc_gasPrice = Some 0\<rparr>)
         (tx_gasPrice \<lparr>tx_hash = ''0xa1'', tx_gasPrice = Some 5\<rparr>) = Some 5 \<and>
   totalGasUsed (snd (attempt defaults 1 zero_price_rpc init)) = 21000 \<and>
   totalGasCost (snd (attempt defaults 1 zero_price_rpc init)) = 105000"
  using C6_gas_price_used [where r = zero_price_rpc and c = 7
      and t = "\<lparr>tx_hash = ''0xa1'', tx_gasPrice = Some 5\<rparr>"
      and rc = "\<lparr>rc_gasUsed = 21000, rc_gasPrice = Some 0\<rparr>" and p = 5
      and cfg = defaults and i = 1 and s = init
      and receiptPrice = "Some 0" and txPrice = "Some 5"]
  by (simp add: zero_price_rpc_def ok_rpc_def init_def)

text \<open>
  Claim C7. With a missing signing key or a missing contract address the process exits with
  code 1 and has made no call to the endpoint. With a balance of zero it exits with code 1
  after the balance read alone: no \<open>increment\<close> is submitted, no attempt is counted and the
  gas totals are zero. The exit code is 0 exactly when both values are present, the wallet
  is built, the balance is not zero and none of the four reads outside the loop raises,
  whatever the attempts did; in every other case it is 1.
\<close>

theorem C7_exit_codes:
  "(js_not (PRIVATE_KEY w) \<or> js_not (COUNTER_ADDRESS w) \<longrightarrow>
      fst (script cfg w) = 1 \<and> calls (out (snd (script cfg w))) = [] \<and>
      totalGasUsed (snd (script cfg w)) = 0 \<and> totalGasCost (snd (script cfg w)) = 0) \<and>
   (\<not> js_not (PRIVATE_KEY w) \<and> \<not> js_not (COUNTER_ADDRESS w) \<and> newWallet w = Inr a \<and>
    getBalance_initial w = Inr 0 \<longrightarrow>
      fst (script cfg w) = 1 \<and> calls (out (snd (script cfg w))) = [GetBalance] \<and>
      successCount (snd (script cfg w)) = 0 \<and> failCount (snd (script cfg w)) = 0 \<and>
      totalGasUsed (snd (script cfg w)) = 0 \<and> totalGasCost (snd (script cfg w)) = 0) \<and>
   (fst (script cfg w) = 0 \<longleftrightarrow>
      \<not> js_not (PRIVATE_KEY w) \<and> \<not> js_not (COUNTER_ADDRESS w) \<and>
      (\<exists>a b c0 cf bf. newWallet w = Inr a \<and> getBalance_initial w = Inr b \<and> b \<noteq> 0 \<and>
         getCount_initial w = Inr c0 \<and> getCount_final w = Inr cf \<and> getBalance_final w = Inr bf)) \<and>
   (fst (script cfg w) = 0 \<or> fst (script cfg w) = 1)"
proof (intro conjI impI)
  assume h: "js_not (PRIVATE_KEY w) \<or> js_not (COUNTER_ADDRESS w)"
  then show "fst (script cfg w) = 1" by (simp add: script_fst)
  from h show "calls (out (snd (script cfg w))) = []" by (rule script_not_started)
  from h show "totalGasUsed (snd (script cfg w)) = 0" by (rule script_not_started)
  from h show "totalGasCost (snd (script cfg w)) = 0" by (rule script_not_started)
next
  assume h: "\<not> js_not (PRIVATE_KEY w) \<and> \<not> js_not (COUNTER_ADDRESS w) \<and> newWallet w = Inr a \<and>
    getBalance_initial w = Inr 0"
  then have eq: "snd (script cfg w) = snd (main cfg w a)"
    by (simp add: script_zero_balance)
  from h have z: "getBalance_initial w = Inr 0" by simp
  from h main_zero_balance(1) [OF z, of cfg a] show "fst (script cfg w) = 1"
    by (simp add: script_fst)
  show "calls (out (snd (script cfg w))) = [GetBalance]"
    unfolding eq using z by (rule main_zero_balance)
  show "successCount (snd (script cfg w)) = 0"
    unfolding eq using z by (rule main_zero_balance)
  show "failCount (snd (script cfg w)) = 0"
    unfolding eq using z by (rule main_zero_balance)
  show "totalGasUsed (snd (script cfg w)) = 0"
    unfolding eq using z by (rule main_zero_balance)
  show "totalGasCost (snd (script cfg w)) = 0"
    unfolding eq using z by (rule main_zero_balance)
next
  show "fst (script cfg w) = 0 \<longleftrightarrow>
      \<not> js_not (PRIVATE_KEY w) \<and> \<not> js_not (COUNTER_ADDRESS w) \<and>
      (\<exists>a b c0 cf bf. newWallet w = Inr a \<and> getBalance_initial w = Inr b \<and> b \<noteq> 0 \<and>
         getCount_initial w = Inr c0 \<and> getCount_final w = Inr cf \<and> getBalance_final w = Inr bf)"
    by (rule script_exit_0)
  show "fst (script cfg w) = 0 \<or> fst (script cfg w) = 1"
    by (rule script_exit_code)
qed

text \<open>
  Claim C7 on four worlds: no signing key, an empty contract address, a balance of zero, and
  the scenario itself with the source's 50 attempts.
\<close>

theorem C7_exit_codes_witness:
  "js_not (PRIVATE_KEY (scenario_world\<lparr>PRIVATE_KEY := None\<rparr>)) \<and>
   fst (script defaults (scenario_world\<lparr>PRIVATE_KEY := None\<rparr>)) = 1 \<and>
   js_not (COUNTER_ADDRESS (scenario_world\<lparr>COUNTER_ADDRESS := Some []\<rparr>)) \<and>
   fst (script defaults (scenario_world\<lparr>COUNTER_ADDRESS := Some []\<rparr>)) = 1 \<and>
   getBalance_initial (scenario_world\<lparr>getBalance_initial := Inr 0\<rparr>) = Inr 0 \<and>
   fst (script defaults (scenario_world\<lparr>getBalance_initial := Inr 0\<rparr>)) = 1 \<and>
   calls (out (snd (script defaults (scenario_world\<lparr>getBalance_initial := Inr 0\<rparr>)))) = [GetBalance] \<and>
   fst (script defaults scenario_world) = 0"
  using C7_exit_codes [where w = "scenario_world\<lparr>PRIVATE_KEY := None\<rparr>" and cfg = defaults]
    C7_exit_codes [where w = "scenario_world\<lparr>COUNTER_ADDRESS := Some []\<rparr>" and cfg = defaults]
    C7_exit_codes [where w = "scenario_world\<lparr>getBalance_initial := Inr 0\<rparr>" and cfg = defaults
      and a = "''0xw0''"]
    C7_exit_codes [where w = scenario_world and cfg = defaults]
  by (simp add: scenario_world_def js_not_def)




text \<open>
  Claim C9. The fallback to the pre-submission gas price is taken for a receipt that omits
  the price and also for one that reports the price zero; the cost of such a transaction is
  its gas used times the pre-submission price.
\<close>

theorem C9_zero_price_falls_back:
  "js_or None txPrice = txPrice \<and> js_or (Some 0) txPrice = txPrice \<and>
   (getCount_before r = Inr c \<and> increment r = Inr t \<and> wait r = Inr rc \<and>
    rc_gasPrice rc = Some 0 \<and> tx_gasPrice t = Some p \<longrightarrow>
      totalGasCost (snd (attempt cfg i r s)) = totalGasCost s + rc_gasUsed rc * p)"
  using attempt_confirmed_totals(2) [of r c t rc p cfg i s]
  by (auto simp add: js_or_def truthy_def)

text \<open>Claim C9 on the attempt whose receipt reports the price zero.\<close>

theorem C9_zero_price_falls_back_witness:
  "rc_gasPrice \<lparr>rc_gasUsed = 21000, rc_gasPrice = Some 0\<rparr> = Some 0 \<and>
   totalGasCost (snd (attempt scenario_cfg 3 zero_price_rpc init)) = 21000 * 5"
  using C9_zero_price_falls_back [where r = zero_price_rpc and c = 7
      and t = "\<lparr>tx_hash = ''0xa1'', tx_gasPrice = Some 5\<rparr>"
      and rc = "\<lparr>rc_gasUsed = 21000, rc_gasPrice = Some 0\<rparr>" and p = 5
      and cfg = scenario_cfg and i = 3 and s = init]
  by (simp add: zero_price_rpc_def ok_rpc_def init_def)

text \<open>
  Claim C10 as stated: when the final read of the counter or of the balance raises, the
  final statistics report is not printed. It fails for the final read of the balance
  (line 154): the lines of the counts and of the gas figures (lines 138-152) are printed
  before it.
\<close>

theorem C10_statistics_printed_before_balance_error:
  "getBalance_final balance_error_world = Inl (Error ''timeout'') \<and>
   fst (script scenario_cfg balance_error_world) = 1 \<and>
   Log (Success 2) \<in> set (out (snd (script scenario_cfg balance_error_world))) \<and>
   Log (Failed 1) \<in> set (out (snd (script scenario_cfg balance_error_world))) \<and>
   Log (TotalGasUsed 42000) \<in> set (out (snd (script scenario_cfg balance_error_world))) \<and>
   Log (AvgGasPerTx (Big 21000)) \<in> set (out (snd (script scenario_cfg balance_error_world)))"
  by (simp add: balance_error_world_def fixture_defs run_defs loop.simps)

text \<open>
  Claim C10 as amended. After a start that passes its checks, the loop counts all
  \<open>INCREMENT_COUNT\<close> attempts. When the final read of the counter then raises, only the
  heading of the report has been printed, the error is reported as fatal and the exit code
  is 1. When that read succeeds and the final read of the balance raises, the counter lines,
  the success and failure counts, the success rate, the gas totals and the two averages have
  been printed, the balance lines and the closing line have not, the error is reported as
  fatal and the exit code is 1.
\<close>

theorem C10_error_after_loop:
  assumes "\<not> js_not (PRIVATE_KEY w)" "\<not> js_not (COUNTER_ADDRESS w)" "newWallet w = Inr a"
    and "getBalance_initial w = Inr balance" "balance \<noteq> 0"
    and "getCount_initial w = Inr initialCount"
    and "s4 = snd (loop cfg 1 (attempts w) (before_loop cfg w a balance initialCount))"
  shows "successCount s4 + failCount s4 = INCREMENT_COUNT cfg \<and>
    (getCount_final w = Inl e \<longrightarrow>
       script cfg w =
         (1, emit [Log (Text []), Log (Text ''Final Statistics''),
                   Log (Text ''===================''), Call GetCount,
                   LogError (FatalError e)] s4)) \<and>
    (getCount_final w = Inr finalCount \<and> getBalance_final w = Inl e \<longrightarrow>
       (\<exists>avgGas avgCost.
          avgGasPerTx s4 = Inr avgGas \<and> avgCostPerTx s4 = Inr avgCost \<and>
          script cfg w =
            (1, emit [Log (Text []), Log (Text ''Final Statistics''),
                      Log (Text ''===================''), Call GetCount,
                      Log (InitialCount initialCount), Log (FinalCount finalCount),
                      Log (ActualIncrements (finalCount - initialCount)), Log (Text []),
                      Log (Success (successCount s4)), Log (Failed (failCount s4)),
                      Log (SuccessRate (successCount s4) (INCREMENT_COUNT cfg)),
                      Log (Text []),
                      Log (TotalGasUsed (totalGasUsed s4)),
                      Log (TotalGasCost (totalGasCost s4)),
                      Log (AvgGasPerTx avgGas), Log (AvgCostPerTx avgCost), Log (Text []),
                      Call GetBalance, LogError (FatalError e)] s4)))"
proof (intro conjI impI)
  have m: "main cfg w a = report cfg w balance initialCount s4"
    unfolding assms(7) using assms(4-6) by (rule main_eq)
  show "successCount s4 + failCount s4 = INCREMENT_COUNT cfg"
    unfolding assms(7)
    using loop_counts [of cfg 1 "attempts w" "before_loop cfg w a balance initialCount"]
    by (simp add: before_loop_counts)
  {
    assume "getCount_final w = Inl e"
    then have "main cfg w a =
        (Thrown e, emit [Log (Text []), Log (Text ''Final Statistics''),
                         Log (Text ''===================''), Call GetCount] s4)"
      by (simp add: m report_final_count_error)
    from script_Thrown [OF assms(1-3) this]
    show "script cfg w =
         (1, emit [Log (Text []), Log (Text ''Final Statistics''),
                   Log (Text ''===================''), Call GetCount,
                   LogError (FatalError e)] s4)"
      by (simp add: emit_emit)
  }
  {
    assume h: "getCount_final w = Inr finalCount \<and> getBalance_final w = Inl e"
    obtain avgGas avgCost where av: "avgGasPerTx s4 = Inr avgGas" "avgCostPerTx s4 = Inr avgCost"
      by (simp add: avgGasPerTx_eq avgCostPerTx_eq)
    have "main cfg w a =
        (Thrown e, emit [Log (Text []), Log (Text ''Final Statistics''),
                         Log (Text ''===================''), Call GetCount,
                         Log (InitialCount initialCount), Log (FinalCount finalCount),
                         Log (ActualIncrements (finalCount - initialCount)), Log (Text []),
                         Log (Success (successCount s4)), Log (Failed (failCount s4)),
                         Log (SuccessRate (successCount s4) (INCREMENT_COUNT cfg)),
                         Log (Text []),
                         Log (TotalGasUsed (totalGasUsed s4)),
                         Log (TotalGasCost (totalGasCost s4)),
                         Log (AvgGasPerTx avgGas), Log (AvgCostPerTx avgCost), Log (Text []),
                         Call GetBalance] s4)"
      using h av by (simp add: m report_final_balance_error)
    from script_Thrown [OF assms(1-3) this] av
    show "\<exists>avgGas avgCost.
          avgGasPerTx s4 = Inr avgGas \<and> avgCostPerTx s4 = Inr avgCost \<and>
          script cfg w =
            (1, emit [Log (Text []), Log (Text ''Final Statistics''),
                      Log (Text ''===================''), Call GetCount,
                      Log (InitialCount initialCount), Log (FinalCount finalCount),
                      Log (ActualIncrements (finalCount - initialCount)), Log (Text []),
                      Log (Success (successCount s4)), Log (Failed (failCount s4)),
                      Log (SuccessRate (successCount s4) (INCREMENT_COUNT cfg)),
                      Log (Text []),
                      Log (TotalGasUsed (totalGasUsed s4)),
                      Log (TotalGasCost (totalGasCost s4)),
                      Log (AvgGasPerTx avgGas), Log (AvgCostPerTx avgCost), Log (Text []),
                      Call GetBalance, LogError (FatalError e)] s4)"
      by (simp add: emit_emit)
  }
qed

text \<open>
  Claim C10 as amended, on the two variants of the scenario that fail after the loop.
\<close>

theorem C10_error_after_loop_witness:
  "getBalance_final balance_error_world = Inl (Error ''timeout'') \<and>
   fst (script scenario_cfg balance_error_world) = 1 \<and>
   out (snd (script scenario_cfg balance_error_world)) =
     out (snd (loop scenario_cfg 1 (attempts balance_error_world)
                (before_loop scenario_cfg balance_error_world ''0xw0'' 1000000 7))) @
     [Log (Text []), Log (Text ''Final Statistics''),
      Log (Text ''===================''), Call GetCount,
      Log (InitialCount 7), Log (FinalCount 9), Log (ActualIncrements 2), Log (Text []),
      Log (Success 2), Log (Failed 1), Log (SuccessRate 2 3), Log (Text []),
      Log (TotalGasUsed 42000), Log (TotalGasCost 42000),
      Log (AvgGasPerTx (Big 21000)), Log (AvgCostPerTx (EthUnit 21000)), Log (Text []),
      Call GetBalance, LogError (FatalError (Error ''timeout''))] \<and>
   getCount_final count_error_world = Inl (Error ''timeout'') \<and>
   script scenario_cfg count_error_world =
     (1, emit [Log (Text []), Log (Text ''Final Statistics''),
               Log (Text ''===================''), Call GetCount,
               LogError (FatalError (Error ''timeout''))]
           (snd (loop scenario_cfg 1 (attempts count_error_world)
                (before_loop scenario_cfg count_error_world ''0xw0'' 1000000 7))))"
proof -
  have balance_case:
    "getBalance_final balance_error_world = Inl (Error ''timeout'') \<and>
     fst (script scenario_cfg balance_error_world) = 1 \<and>
     out (snd (script scenario_cfg balance_error_world)) =
       out (snd (loop scenario_cfg 1 (attempts balance_error_world)
                  (before_loop scenario_cfg balance_error_world ''0xw0'' 1000000 7))) @
       [Log (Text []), Log (Text ''Final Statistics''),
        Log (Text ''===================''), Call GetCount,
        Log (InitialCount 7), Log (FinalCount 9), Log (ActualIncrements 2), Log (Text []),
        Log (Success 2), Log (Failed 1), Log (SuccessRate 2 3), Log (Text []),
        Log (TotalGasUsed 42000), Log (TotalGasCost 42000),
        Log (AvgGasPerTx (Big 21000)), Log (AvgCostPerTx (EthUnit 21000)), Log (Text []),
        Call GetBalance, LogError (FatalError (Error ''timeout''))]"
    using C10_error_after_loop [where w = balance_error_world and cfg = scenario_cfg
        and a = "''0xw0''" and balance = 1000000 and initialCount = 7 and finalCount = 9
        and e = "Error ''timeout''", OF _ _ _ _ _ _ refl]
    by (simp add: balance_error_world_def fixture_defs run_defs before_loop_def loop.simps)
  have count_case:
    "getCount_final count_error_world = Inl (Error ''timeout'') \<and>
     script scenario_cfg count_error_world =
       (1, emit [Log (Text []), Log (Text ''Final Statistics''),
                 Log (Text ''===================''), Call GetCount,
                 LogError (FatalError (Error ''timeout''))]
             (snd (loop scenario_cfg 1 (attempts count_error_world)
                  (before_loop scenario_cfg count_error_world ''0xw0'' 1000000 7))))"
    using C10_error_after_loop [where w = count_error_world and cfg = scenario_cfg
        and a = "''0xw0''" and balance = 1000000 and initialCount = 7
        and e = "Error ''timeout''", OF _ _ _ _ _ _ refl]
    by (simp add: count_error_world_def scenario_world_def js_not_def)
  from balance_case count_case show ?thesis by (intro conjI) simp_all
qed

end
